theory Spec2Isabelle
  imports Main "HOL-Library.AList"
begin

section \<open>The document store\<close>

text \<open>
  The application keeps all of its state in a key-path document store. A node of the store
  is an object of named children; a node none of whose children has a value does not
  exist. Objects whose children the code enumerates (\<open>Object.values\<close>,
  \<open>Object.keys(...)[0]\<close>, queries) are association lists in key order; \<open>set\<close> on a path is
  \<open>AList.update\<close> (replace in place, or append a new key) and \<open>update\<close> on a path merges
  the given children into the node, creating it when it is absent.

  Strings are byte strings, prices are integers, and clock readings, random secrets and the
  keys returned by \<open>push\<close> are supplied by the caller of each operation. The network never
  fails. Two refusals of the store's client library are modelled, in \<open>orderService\<close> and in
  the webhook handler: \<open>ref\<close> throws on a path with a forbidden character, and \<open>set\<close>
  throws on a value with an undefined property.
\<close>

datatype service_status = Active | Suspended | Terminated | Banned | PendingActivation | Pending

datatype invoice_status = Paid | Unpaid

record plan =
  plan_id :: string
  plan_name :: string
  plan_price :: int
  plan_details :: "(string \<times> string) list"

record cpanel =
  cp_username :: string
  cp_password :: string
  cp_token :: string
  cp_tokenExpires :: int

record service =
  s_name :: "string option"
  s_price :: "int option"
  s_details :: "(string \<times> string) list"
  s_id :: "string option"
  s_planId :: "string option"
  s_orderDate :: "string option"
  s_status :: "service_status option"
  s_subdomain :: "string option"
  s_cpanel :: "cpanel option"

definition empty_service :: service where
  "empty_service = \<lparr> s_name = None, s_price = None, s_details = [], s_id = None,
     s_planId = None, s_orderDate = None, s_status = None, s_subdomain = None,
     s_cpanel = None \<rparr>"

record user =
  u_email :: "string option"
  u_name :: "string option"
  u_services :: "(string \<times> service) list"

definition empty_user :: user where
  "empty_user = \<lparr> u_email = None, u_name = None, u_services = [] \<rparr>"

record user_details =
  ud_email :: "string option"
  ud_name :: string

record invoice =
  i_userId :: string
  i_serviceId :: string
  i_serviceName :: string
  i_amount :: int
  i_status :: invoice_status
  i_invoiceDate :: string
  i_dueDate :: string
  i_userEmail :: "string option"
  i_companyDetails :: "(string \<times> string) list"
  i_userDetails :: user_details

record subdomain_record =
  sd_userId :: string
  sd_subdomain :: string
  sd_createdAt :: string
  sd_status :: service_status
  sd_serviceId :: "string option"

record panel_session =
  ps_password :: string
  ps_access_token :: string
  ps_expires_at :: int
  ps_userId :: string
  ps_serviceId :: string

record stripe_settings =
  secretKey :: "string option"
  webhookSecret :: "string option"

record db =
  settings_restrictions :: "bool option"
  settings_domain :: "string option"
  settings_invoice :: "(string \<times> string) list option"
  settings_stripe :: "stripe_settings option"
  users :: "(string \<times> user) list"
  invoices :: "(string \<times> invoice) list"
  subdomains :: "(string \<times> subdomain_record) list"
  pannelneed :: "(string \<times> panel_session) list"

text \<open>
  \<open>settings_restrictions\<close> is the child \<open>freeUserLimitEnabled\<close> of \<open>settings/restrictions\<close>
  and \<open>settings_domain\<close> the child \<open>domain\<close> of \<open>settings/domain\<close>; \<open>None\<close> is a node that
  does not exist.
\<close>

text \<open>\<open>ref(db, path)\<close> accepts a path that is not empty and has none of the characters
  \<open>[\<close>, \<open>]\<close>, \<open>.\<close>, \<open>#\<close>, \<open>$\<close>, no control character and no DEL.\<close>

definition legal_char :: "char \<Rightarrow> bool" where
  "legal_char c \<longleftrightarrow>
     c \<notin> set ''[].#$'' \<and> (32 :: nat) \<le> of_char c \<and> (of_char c :: nat) \<noteq> 127"

definition legal_path :: "string \<Rightarrow> bool" where
  "legal_path path \<longleftrightarrow> path \<noteq> [] \<and> list_all legal_char path"

definition user_services :: "db \<Rightarrow> string \<Rightarrow> (string \<times> service) list" where
  "user_services d uid = (case map_of (users d) uid of None \<Rightarrow> [] | Some u \<Rightarrow> u_services u)"

text \<open>\<open>get(ref(db, `users/${userId}/services/${serviceId}`))\<close>: \<open>None\<close> when the snapshot does
  not exist.\<close>

definition service_node :: "db \<Rightarrow> string \<Rightarrow> string \<Rightarrow> service" where
  "service_node d uid sid =
     (case map_of (user_services d uid) sid of None \<Rightarrow> empty_service | Some s \<Rightarrow> s)"

definition get_service :: "db \<Rightarrow> string \<Rightarrow> string \<Rightarrow> service option" where
  "get_service d uid sid =
     (let s = service_node d uid sid in if s = empty_service then None else Some s)"

text \<open>\<open>update(ref, children)\<close> on one entry of an object: the node is created when absent.\<close>

definition merge_at :: "'k \<Rightarrow> 'v \<Rightarrow> ('v \<Rightarrow> 'v) \<Rightarrow> ('k \<times> 'v) list \<Rightarrow> ('k \<times> 'v) list" where
  "merge_at k blank f xs =
     AList.update k (f (case map_of xs k of None \<Rightarrow> blank | Some v \<Rightarrow> v)) xs"

definition update_service :: "string \<Rightarrow> string \<Rightarrow> (service \<Rightarrow> service) \<Rightarrow> db \<Rightarrow> db" where
  "update_service uid sid f d =
     d\<lparr> users := merge_at uid empty_user
          (\<lambda>u. u\<lparr> u_services := merge_at sid empty_service f (u_services u) \<rparr>) (users d) \<rparr>"

text \<open>\<open>set(ref(db, `users/${userId}/services/${key}`), data)\<close>.\<close>

definition set_service :: "string \<Rightarrow> string \<Rightarrow> service \<Rightarrow> db \<Rightarrow> db" where
  "set_service uid sid s d = update_service uid sid (\<lambda>_. s) d"

text \<open>\<open>query(ref(db, 'invoices'), orderByChild('serviceId'), equalTo(serviceId))\<close> followed by
  \<open>Object.keys(invoiceData)[0]\<close>: the key of the first invoice of that service, \<open>None\<close> when
  the snapshot does not exist.\<close>

definition first_invoice_key :: "string \<Rightarrow> (string \<times> invoice) list \<Rightarrow> string option" where
  "first_invoice_key sid invs =
     (case filter (\<lambda>(k, i). i_serviceId i = sid) invs of [] \<Rightarrow> None | (k, i) # _ \<Rightarrow> Some k)"

text \<open>\<open>update(ref(db, `invoices/${invoiceKey}`), { status: 'Paid' })\<close> for a key the query
  returned.\<close>

definition mark_paid :: "string \<Rightarrow> (string \<times> invoice) list \<Rightarrow> (string \<times> invoice) list" where
  "mark_paid key invs =
     map (\<lambda>(k, i). if k = key then (k, i\<lparr> i_status := Paid \<rparr>) else (k, i)) invs"

section \<open>Placing an order\<close>

datatype order_error =
    InvalidRequest
  | LimitExceeded
  | KeyGenerationFailed
  | InvalidPath
  | UndefinedValue

record order_env =
  oe_serviceKey :: string
  oe_invoiceKey :: string
  oe_now :: string

text \<open>The restriction check of \<open>orderService\<close>: the flag is read from
  \<open>settings/restrictions\<close>; when it is set, the reference to the user's services is built,
  which throws on an illegal path, and the services are scanned for one of price 0.\<close>

definition hasExistingFreeService :: "db \<Rightarrow> string \<Rightarrow> bool" where
  "hasExistingFreeService d uid =
     (case user_services d uid of
        [] \<Rightarrow> False
      | svcs \<Rightarrow> list_ex (\<lambda>(k, s). s_price s = Some 0) svcs)"

definition free_user_restriction :: "db \<Rightarrow> string \<Rightarrow> order_error option" where
  "free_user_restriction d uid =
     (case settings_restrictions d of
        None \<Rightarrow> None
      | Some freeUserLimitEnabled \<Rightarrow>
          if freeUserLimitEnabled then
            (if \<not> legal_path (''users/'' @ uid @ ''/services'') then Some InvalidPath
             else if hasExistingFreeService d uid then Some LimitExceeded
             else None)
          else None)"

definition service_of_plan :: "plan \<Rightarrow> string \<Rightarrow> string \<Rightarrow> service_status \<Rightarrow> service" where
  "service_of_plan p key now st =
     \<lparr> s_name = Some (plan_name p), s_price = Some (plan_price p),
       s_details = plan_details p, s_id = Some key, s_planId = Some (plan_id p),
       s_orderDate = Some now, s_status = Some st, s_subdomain = None, s_cpanel = None \<rparr>"

definition invoice_user_details :: "db \<Rightarrow> string \<Rightarrow> user_details" where
  "invoice_user_details d uid =
     (case map_of (users d) uid of
        Some u \<Rightarrow> \<lparr> ud_email = u_email u,
                    ud_name = (case u_name u of None \<Rightarrow> ''Valued Customer''
                               | Some n \<Rightarrow> if n = [] then ''Valued Customer'' else n) \<rparr>
      | None \<Rightarrow> \<lparr> ud_email = Some ''N/A'', ud_name = ''Valued Customer'' \<rparr>)"

text \<open>
  \<open>orderService\<close> throws before it writes anything when the request is incomplete, when
  the restriction rejects the order, when the path of the user's services is illegal and
  when \<open>push\<close> returns no key. After the service is written the user's node exists, so the
  invoice takes the e-mail address from it; when the node has no \<open>email\<close> the invoice has
  an undefined \<open>userEmail\<close>, \<open>set\<close> throws, and the service stays without an invoice.
\<close>

definition orderService ::
  "order_env \<Rightarrow> plan \<Rightarrow> string \<Rightarrow> db \<Rightarrow> (order_error + string \<times> service) \<times> db" where
  "orderService env p userId d =
     (if userId = [] \<or> plan_id p = [] then (Inl InvalidRequest, d)
      else
        let isFreePlan = (plan_price p = 0);
            restriction = (if isFreePlan then free_user_restriction d userId else None)
        in
        case restriction of
          Some e \<Rightarrow> (Inl e, d)
        | None \<Rightarrow>
            if \<not> legal_path (''users/'' @ userId @ ''/services'') then (Inl InvalidPath, d)
            else
              let serviceId = oe_serviceKey env in
              if serviceId = [] then (Inl KeyGenerationFailed, d)
              else
                let status = (if isFreePlan then Active else Pending);
                    serviceData = service_of_plan p serviceId (oe_now env) status;
                    d1 = set_service userId serviceId serviceData d;
                    userDetails = invoice_user_details d1 userId;
                    companyDetails = (case settings_invoice d1 of None \<Rightarrow> [] | Some c \<Rightarrow> c);
                    invoiceData =
                      \<lparr> i_userId = userId, i_serviceId = serviceId,
                        i_serviceName = plan_name p, i_amount = plan_price p,
                        i_status = (if isFreePlan then Paid else Unpaid),
                        i_invoiceDate = oe_now env, i_dueDate = oe_now env,
                        i_userEmail = ud_email userDetails,
                        i_companyDetails = companyDetails, i_userDetails = userDetails \<rparr>
                in
                if ud_email userDetails = None then (Inl UndefinedValue, d1)
                else
                  (Inr (serviceId, serviceData),
                   d1\<lparr> invoices :=
                         AList.update (oe_invoiceKey env) invoiceData (invoices d1) \<rparr>))"

section \<open>Administrative status update\<close>

definition updateServiceStatus ::
  "string \<Rightarrow> string \<Rightarrow> service_status \<Rightarrow> db \<Rightarrow> (order_error + unit) \<times> db" where
  "updateServiceStatus userId serviceId status d =
     (if userId = [] \<or> serviceId = [] then (Inl InvalidRequest, d)
      else
        let d1 = update_service userId serviceId (\<lambda>s. s\<lparr> s_status := Some status \<rparr>) d;
            d2 = (if status = Active then
                    (case first_invoice_key serviceId (invoices d1) of
                       Some invoiceKey \<Rightarrow> d1\<lparr> invoices := mark_paid invoiceKey (invoices d1) \<rparr>
                     | None \<Rightarrow> d1)
                  else d1)
        in (Inr (), d2))"

section \<open>The payment webhook\<close>

text \<open>
  The gateway library's \<open>constructEvent(body, signature, secret)\<close> is a parameter of the
  handler: it returns the parsed event, or the message of the error it throws when the
  signature does not verify.

  In the handler's \<open>try\<close> block the invoice is looked up and marked first; then the
  reference to the service is built from the ids of the event. When that path is illegal
  \<open>ref\<close> throws, the \<open>catch\<close> answers 500 with \<open>Database error.\<close>, and the invoice stays
  marked.
\<close>

record checkout_metadata =
  md_userId :: "string option"
  md_planId :: "string option"
  md_serviceId :: "string option"

record stripe_event =
  ev_type :: string
  ev_metadata :: "checkout_metadata option"

record webhook_request =
  rq_body :: string
  rq_signature :: "string option"

datatype response_body = ErrorBody string | Received

record response =
  r_status :: nat
  r_body :: response_body

type_synonym construct_event = "string \<Rightarrow> string \<Rightarrow> string \<Rightarrow> string + stripe_event"

definition getStripeSecrets :: "db \<Rightarrow> string option \<times> string option" where
  "getStripeSecrets d =
     (case settings_stripe d of
        Some st \<Rightarrow> (secretKey st, webhookSecret st)
      | None \<Rightarrow> (None, None))"

text \<open>JavaScript's \<open>!x\<close> on an optional string: absent or empty.\<close>

definition falsy :: "string option \<Rightarrow> bool" where
  "falsy x = (case x of None \<Rightarrow> True | Some v \<Rightarrow> v = [])"

definition checkout_completed :: string where
  "checkout_completed = ''checkout.session.completed''"

definition POST :: "construct_event \<Rightarrow> webhook_request \<Rightarrow> db \<Rightarrow> response \<times> db" where
  "POST constructEvent req d =
     (case getStripeSecrets d of
        (Some sk, Some whsec) \<Rightarrow>
          if sk = [] \<or> whsec = [] then
            (\<lparr> r_status = 500, r_body = ErrorBody ''Stripe is not configured.'' \<rparr>, d)
          else
            (case (if falsy (rq_signature req) then Inl ''No stripe-signature header found.''
                   else constructEvent (rq_body req) (the (rq_signature req)) whsec) of
               Inl errorMessage \<Rightarrow>
                 (\<lparr> r_status = 400, r_body = ErrorBody (''Webhook Error: '' @ errorMessage) \<rparr>, d)
             | Inr event \<Rightarrow>
                 if ev_type event = checkout_completed then
                   (let md = (case ev_metadata event of
                                None \<Rightarrow> \<lparr> md_userId = None, md_planId = None, md_serviceId = None \<rparr>
                              | Some m \<Rightarrow> m)
                    in if falsy (md_userId md) \<or> falsy (md_planId md) \<or> falsy (md_serviceId md)
                       then (\<lparr> r_status = 200, r_body = ErrorBody ''Missing metadata.'' \<rparr>, d)
                       else
                         let userId = the (md_userId md);
                             serviceId = the (md_serviceId md);
                             d1 = (case first_invoice_key serviceId (invoices d) of
                                     Some invoiceKey \<Rightarrow>
                                       d\<lparr> invoices := mark_paid invoiceKey (invoices d) \<rparr>
                                   | None \<Rightarrow> d)
                         in
                         if \<not> legal_path (''users/'' @ userId @ ''/services/'' @ serviceId)
                         then (\<lparr> r_status = 500, r_body = ErrorBody ''Database error.'' \<rparr>, d1)
                         else
                           (\<lparr> r_status = 200, r_body = Received \<rparr>,
                            update_service userId serviceId
                              (\<lambda>s. s\<lparr> s_status := Some Active \<rparr>) d1))
                 else (\<lparr> r_status = 200, r_body = Received \<rparr>, d))
      | _ \<Rightarrow> (\<lparr> r_status = 500, r_body = ErrorBody ''Stripe is not configured.'' \<rparr>, d))"

section \<open>Panel login\<close>

datatype login_error = IdsRequired | ServiceNotFound | NoSubdomainAssigned

record login_env =
  le_password :: string
  le_token :: string
  le_now_ms :: int

record panel_login =
  pl_username :: string
  pl_password :: string
  pl_token :: string

definition handleAquaPanelLogin ::
  "login_env \<Rightarrow> string \<Rightarrow> string \<Rightarrow> db \<Rightarrow> (login_error + panel_login) \<times> db" where
  "handleAquaPanelLogin env userId serviceId d =
     (if userId = [] \<or> serviceId = [] then (Inl IdsRequired, d)
      else
        case get_service d userId serviceId of
          None \<Rightarrow> (Inl ServiceNotFound, d)
        | Some service \<Rightarrow>
            if falsy (s_subdomain service) then (Inl NoSubdomainAssigned, d)
            else
              let fullSubdomain = the (s_subdomain service);
                  username = takeWhile (\<lambda>c. c \<noteq> CHR ''.'') fullSubdomain;
                  expires_at = le_now_ms env div 1000 + 3600;
                  session = \<lparr> ps_password = le_password env, ps_access_token = le_token env,
                              ps_expires_at = expires_at, ps_userId = userId,
                              ps_serviceId = serviceId \<rparr>
              in (Inr \<lparr> pl_username = username, pl_password = le_password env,
                         pl_token = le_token env \<rparr>,
                  d\<lparr> pannelneed := AList.update username session (pannelneed d) \<rparr>))"

section \<open>Subdomain labels\<close>

text \<open>
  The label pattern of \<open>CreateSubdomainInputSchema\<close> is a regular expression. Regular
  expressions are a datatype, and \<open>RegExp.test\<close> for an expression anchored at both ends is
  decided by taking derivatives character by character.
\<close>

datatype rexp =
    Nothing
  | Eps
  | Chr char
  | Range char char
  | Alt rexp rexp
  | Seq rexp rexp
  | Star rexp

definition char_between :: "char \<Rightarrow> char \<Rightarrow> char \<Rightarrow> bool" where
  "char_between lo hi c \<longleftrightarrow> (of_char lo :: nat) \<le> of_char c \<and> (of_char c :: nat) \<le> of_char hi"

fun nullable :: "rexp \<Rightarrow> bool" where
  "nullable Nothing = False"
| "nullable Eps = True"
| "nullable (Chr a) = False"
| "nullable (Range lo hi) = False"
| "nullable (Alt r s) = (nullable r \<or> nullable s)"
| "nullable (Seq r s) = (nullable r \<and> nullable s)"
| "nullable (Star r) = True"

fun deriv :: "char \<Rightarrow> rexp \<Rightarrow> rexp" where
  "deriv c Nothing = Nothing"
| "deriv c Eps = Nothing"
| "deriv c (Chr a) = (if c = a then Eps else Nothing)"
| "deriv c (Range lo hi) = (if char_between lo hi c then Eps else Nothing)"
| "deriv c (Alt r s) = Alt (deriv c r) (deriv c s)"
| "deriv c (Seq r s) =
     (if nullable r then Alt (Seq (deriv c r) s) (deriv c s) else Seq (deriv c r) s)"
| "deriv c (Star r) = Seq (deriv c r) (Star r)"

fun rx_test :: "rexp \<Rightarrow> string \<Rightarrow> bool" where
  "rx_test r [] = nullable r"
| "rx_test r (c # w) = rx_test (deriv c r) w"

definition Plus :: "rexp \<Rightarrow> rexp" where
  "Plus r = Seq r (Star r)"

text \<open>\<open>[a-z0-9]\<close> and \<open>/^[a-z0-9]+(?:-[a-z0-9]+)*$/\<close>.\<close>

definition lower_alnum_class :: rexp where
  "lower_alnum_class = Alt (Range (CHR ''a'') (CHR ''z'')) (Range (CHR ''0'') (CHR ''9''))"

definition subdomain_pattern :: rexp where
  "subdomain_pattern =
     Seq (Plus lower_alnum_class) (Star (Seq (Chr (CHR ''-'')) (Plus lower_alnum_class)))"

record create_subdomain_input =
  in_subdomain :: string
  in_userId :: string
  in_serviceId :: "string option"

text \<open>\<open>CreateSubdomainInputSchema.safeParse(input).success\<close>.\<close>

definition CreateSubdomainInputSchema :: "create_subdomain_input \<Rightarrow> bool" where
  "CreateSubdomainInputSchema input \<longleftrightarrow>
     3 \<le> length (in_subdomain input) \<and>
     length (in_subdomain input) \<le> 30 \<and>
     rx_test subdomain_pattern (in_subdomain input) \<and>
     1 \<le> length (in_userId input)"

section \<open>Provisioning a subdomain\<close>

text \<open>
  The provisioning API is outside the program: its answer to a request is a parameter, and
  every request sent to it is logged in the result of the operation.
\<close>

record api_call =
  ac_subdomain :: string
  ac_rootdomain :: string
  ac_dir :: string

datatype api_body = Unparseable string | Json "int option" "string list"

datatype api_response = FetchFailed string | HttpResponse bool nat api_body

datatype api_failure =
    HttpStatus nat
  | ApiError string
  | ParseFailure string
  | CallException string

datatype tool_result = ToolSuccess | ToolFailure api_failure

definition createSubdomainOnServer :: "(api_call \<Rightarrow> api_response) \<Rightarrow> string \<Rightarrow> string \<Rightarrow> tool_result" where
  "createSubdomainOnServer api subdomain rootDomain =
     (let docRoot = subdomain @ ''.'' @ rootDomain in
      case api \<lparr> ac_subdomain = subdomain, ac_rootdomain = rootDomain, ac_dir = docRoot \<rparr> of
        FetchFailed msg \<Rightarrow> ToolFailure (CallException msg)
      | HttpResponse ok status body \<Rightarrow>
          if \<not> ok then ToolFailure (HttpStatus status)
          else
            (case body of
               Unparseable responseText \<Rightarrow> ToolFailure (ParseFailure responseText)
             | Json status_field errors \<Rightarrow>
                 if status_field = Some 1 then ToolSuccess
                 else ToolFailure (ApiError
                   (case errors of [] \<Rightarrow> ''Unknown API error during creation.''
                    | e # _ \<Rightarrow> if e = [] then ''Unknown API error during creation.'' else e))))"

record subdomain_env =
  se_api :: "api_call \<Rightarrow> api_response"
  se_password :: string
  se_token :: string
  se_now_ms :: int
  se_now :: string
  se_subdomainKey :: string

datatype flow_failure = NotConfigured | AlreadyTaken string | ProvisioningFailed api_failure

datatype flow_output = Failed flow_failure | Created string

datatype subdomain_error = InvalidInput

definition createSubdomainFlow ::
  "subdomain_env \<Rightarrow> create_subdomain_input \<Rightarrow> db \<Rightarrow> flow_output \<times> db \<times> api_call list" where
  "createSubdomainFlow env input d =
     (if falsy (settings_domain d) then (Failed NotConfigured, d, [])
      else
        let domainToUse = the (settings_domain d);
            fullSubdomain = in_subdomain input @ ''.'' @ domainToUse
        in
        if list_ex (\<lambda>(k, r). sd_subdomain r = fullSubdomain) (subdomains d)
        then (Failed (AlreadyTaken fullSubdomain), d, [])
        else
          let call = \<lparr> ac_subdomain = in_subdomain input, ac_rootdomain = domainToUse,
                       ac_dir = in_subdomain input @ ''.'' @ domainToUse \<rparr>
          in
          case createSubdomainOnServer (se_api env) (in_subdomain input) domainToUse of
            ToolFailure f \<Rightarrow> (Failed (ProvisioningFailed f), d, [call])
          | ToolSuccess \<Rightarrow>
              let tokenExpires = se_now_ms env + 60 * 60 * 1000;
                  d1 = d\<lparr> subdomains := AList.update (se_subdomainKey env)
                         \<lparr> sd_userId = in_userId input, sd_subdomain = fullSubdomain,
                           sd_createdAt = se_now env, sd_status = Active,
                           sd_serviceId = in_serviceId input \<rparr> (subdomains d) \<rparr>;
                  d2 = (if falsy (in_serviceId input) then d1
                        else update_service (in_userId input) (the (in_serviceId input))
                               (\<lambda>s. s\<lparr> s_subdomain := Some fullSubdomain,
                                       s_status := Some Active,
                                       s_cpanel := Some \<lparr> cp_username = in_subdomain input,
                                         cp_password = se_password env,
                                         cp_token = se_token env,
                                         cp_tokenExpires = tokenExpires \<rparr> \<rparr>) d1)
              in (Created fullSubdomain, d2, [call]))"

definition createSubdomain ::
  "subdomain_env \<Rightarrow> create_subdomain_input \<Rightarrow> db
     \<Rightarrow> (subdomain_error + flow_output) \<times> db \<times> api_call list" where
  "createSubdomain env input d =
     (if \<not> CreateSubdomainInputSchema input then (Inl InvalidInput, d, [])
      else
        case createSubdomainFlow env input d of
          (out, d', calls) \<Rightarrow> (Inr out, d', calls))"

text \<open>The states that sequences of provisioning requests lead to.\<close>

inductive reachable :: "db \<Rightarrow> db \<Rightarrow> bool" for d0 :: db where
  reachable_start: "reachable d0 d0"
| reachable_step:
    "reachable d0 d \<Longrightarrow> createSubdomainFlow env input d = (out, d', calls) \<Longrightarrow> reachable d0 d'"

definition service_ids_unique :: "db \<Rightarrow> bool" where
  "service_ids_unique d \<longleftrightarrow>
     distinct (filter (\<lambda>sid. \<not> falsy sid) (map (\<lambda>(k, r). sd_serviceId r) (subdomains d)))"

definition lower_alnum :: "char \<Rightarrow> bool" where
  "lower_alnum c \<longleftrightarrow>
     char_between (CHR ''a'') (CHR ''z'') c \<or> char_between (CHR ''0'') (CHR ''9'') c"

section \<open>The language of a regular expression\<close>

definition conc :: "string set \<Rightarrow> string set \<Rightarrow> string set" where
  "conc A B = {u @ v | u v. u \<in> A \<and> v \<in> B}"

inductive_set star :: "string set \<Rightarrow> string set" for A :: "string set" where
  star_empty: "[] \<in> star A"
| star_more: "u \<in> A \<Longrightarrow> v \<in> star A \<Longrightarrow> u @ v \<in> star A"

fun lang :: "rexp \<Rightarrow> string set" where
  "lang Nothing = {}"
| "lang Eps = {[]}"
| "lang (Chr a) = {[a]}"
| "lang (Range lo hi) = {[c] | c. char_between lo hi c}"
| "lang (Alt r s) = lang r \<union> lang s"
| "lang (Seq r s) = conc (lang r) (lang s)"
| "lang (Star r) = star (lang r)"

text \<open>The words that may follow the first run of letters and digits of a label: nothing,
  or hyphens, letters and digits ending in a letter or digit.\<close>

definition label_tail :: "string \<Rightarrow> bool" where
  "label_tail w \<longleftrightarrow>
     w = [] \<or> ((\<forall>c \<in> set w. lower_alnum c \<or> c = CHR ''-'') \<and> lower_alnum (last w))"

section \<open>Example data\<close>

definition free_plan :: plan where
  "free_plan = \<lparr> plan_id = ''p0'', plan_name = ''Starter'', plan_price = 0, plan_details = [] \<rparr>"

definition paid_plan :: plan where
  "paid_plan = \<lparr> plan_id = ''p1'', plan_name = ''Pro'', plan_price = 499, plan_details = [] \<rparr>"

definition empty_db :: db where
  "empty_db = \<lparr> settings_restrictions = None, settings_domain = None, settings_invoice = None,
     settings_stripe = None, users = [], invoices = [], subdomains = [], pannelneed = [] \<rparr>"

definition order_env1 :: order_env where
  "order_env1 = \<lparr> oe_serviceKey = ''s1'', oe_invoiceKey = ''i1'', oe_now = ''2024-01-01'' \<rparr>"

definition order_env2 :: order_env where
  "order_env2 = \<lparr> oe_serviceKey = ''s2'', oe_invoiceKey = ''i2'', oe_now = ''2024-01-02'' \<rparr>"

text \<open>A store with the free-plan limit switched on in which user \<open>u1\<close> owns one suspended
  service of price 0.\<close>

definition limited_db :: db where
  "limited_db = empty_db\<lparr> settings_restrictions := Some True,
     users := [(''u1'', \<lparr> u_email = Some ''u1@example.com'', u_name = Some ''Una'',
        u_services = [(''s1'', service_of_plan free_plan ''s1'' ''2024-01-01'' Suspended)] \<rparr>)] \<rparr>"

text \<open>A store with the payment gateway configured and the registered user \<open>u1\<close>, who has
  no service yet.\<close>

definition customer_db :: db where
  "customer_db = empty_db\<lparr> settings_stripe :=
       Some \<lparr> secretKey = Some ''sk_test'', webhookSecret = Some ''whsec_test'' \<rparr>,
     users := [(''u1'', \<lparr> u_email = Some ''u1@example.com'', u_name = Some ''Una'',
        u_services = [] \<rparr>)] \<rparr>"

definition paid_event :: stripe_event where
  "paid_event = \<lparr> ev_type = checkout_completed,
     ev_metadata = Some \<lparr> md_userId = Some ''u1'', md_planId = Some ''p1'',
                          md_serviceId = Some ''s1'' \<rparr> \<rparr>"

text \<open>A stand-in for the gateway library: the signature \<open>good\<close> verifies for the secret
  \<open>whsec_test\<close>, and the body selects the event.\<close>

text \<open>The event of a checkout session that was created for user \<open>u1\<close> with the service id
  \<open>s.1\<close>, which no path of the store may contain.\<close>

definition stray_event :: stripe_event where
  "stray_event = \<lparr> ev_type = checkout_completed,
     ev_metadata = Some \<lparr> md_userId = Some ''u1'', md_planId = Some ''p1'',
                          md_serviceId = Some ''s.1'' \<rparr> \<rparr>"

definition demo_constructEvent :: construct_event where
  "demo_constructEvent body sig secret =
     (if sig = ''good'' \<and> secret = ''whsec_test'' then
        (if body = ''paid'' then Inr paid_event
         else if body = ''stray'' then Inr stray_event
         else Inr \<lparr> ev_type = ''invoice.created'', ev_metadata = None \<rparr>)
      else Inl ''No signatures found matching the expected signature for payload.'')"

definition ordered_db :: db where
  "ordered_db = snd (orderService order_env1 paid_plan ''u1'' customer_db)"

text \<open>The invoice that this order stores under the key \<open>i1\<close>.\<close>

definition ordered_invoice :: invoice where
  "ordered_invoice = \<lparr> i_userId = ''u1'', i_serviceId = ''s1'', i_serviceName = ''Pro'',
     i_amount = 499, i_status = Unpaid, i_invoiceDate = ''2024-01-01'',
     i_dueDate = ''2024-01-01'', i_userEmail = Some ''u1@example.com'', i_companyDetails = [],
     i_userDetails = \<lparr> ud_email = Some ''u1@example.com'', ud_name = ''Una'' \<rparr> \<rparr>"



definition other_request :: webhook_request where
  "other_request = \<lparr> rq_body = ''other'', rq_signature = Some ''good'' \<rparr>"

definition forged_request :: webhook_request where
  "forged_request = \<lparr> rq_body = ''paid'', rq_signature = Some ''forged'' \<rparr>"

definition login_env1 :: login_env where
  "login_env1 = \<lparr> le_password = ''0a1b2c3d4e5f0a1b2c3d4e5f'', le_token = ''77aa'',
     le_now_ms = 1700000000123 \<rparr>"

definition api_ok :: "api_call \<Rightarrow> api_response" where
  "api_ok call = HttpResponse True 200 (Json (Some 1) [])"

definition sub_env1 :: subdomain_env where
  "sub_env1 = \<lparr> se_api = api_ok, se_password = ''pw1'', se_token = ''tok1'',
     se_now_ms = 1700000000000, se_now = ''2024-01-03'', se_subdomainKey = ''k1'' \<rparr>"

definition sub_env2 :: subdomain_env where
  "sub_env2 = \<lparr> se_api = api_ok, se_password = ''pw2'', se_token = ''tok2'',
     se_now_ms = 1700000100000, se_now = ''2024-01-04'', se_subdomainKey = ''k2'' \<rparr>"

text \<open>A store with the root domain configured in which user \<open>u1\<close> owns the active
  service \<open>s1\<close>, not yet given a subdomain.\<close>

definition domain_db :: db where
  "domain_db = empty_db\<lparr> settings_domain := Some ''example.com'',
     users := [(''u1'', \<lparr> u_email = Some ''u1@example.com'', u_name = Some ''Una'',
        u_services = [(''s1'', service_of_plan free_plan ''s1'' ''2024-01-01'' Active)] \<rparr>)] \<rparr>"

definition shop_input :: create_subdomain_input where
  "shop_input = \<lparr> in_subdomain = ''shop'', in_userId = ''u1'', in_serviceId = Some ''s1'' \<rparr>"

definition blog_input :: create_subdomain_input where
  "blog_input = \<lparr> in_subdomain = ''blog'', in_userId = ''u1'', in_serviceId = Some ''s1'' \<rparr>"

definition shop_db :: db where
  "shop_db = fst (snd (createSubdomainFlow sub_env1 shop_input domain_db))"

definition shop_blog_db :: db where
  "shop_blog_db = fst (snd (createSubdomainFlow sub_env2 blog_input shop_db))"

text \<open>The service \<open>s1\<close> of user \<open>u1\<close> was given the subdomain \<open>shop.example.com\<close> and
  was then suspended by the administrator.\<close>

definition suspended_db :: db where
  "suspended_db = snd (updateServiceStatus ''u1'' ''s1'' Suspended shop_db)"

section \<open>Facts about the store\<close>

lemma map_of_merge_at:
  "map_of (merge_at k blank f xs) =
     (map_of xs)(k \<mapsto> f (case map_of xs k of None \<Rightarrow> blank | Some v \<Rightarrow> v))"
  by (simp add: merge_at_def update_conv')

lemma user_services_update_service:
  "user_services (update_service uid sid f d) uid' =
     (if uid' = uid then merge_at sid empty_service f (user_services d uid)
      else user_services d uid')"
  by (simp add: user_services_def update_service_def map_of_merge_at empty_user_def
      split: option.splits)

lemma service_node_update_service:
  "service_node (update_service uid sid f d) uid' sid' =
     (if uid' = uid \<and> sid' = sid then f (service_node d uid sid)
      else service_node d uid' sid')"
  by (simp add: service_node_def user_services_update_service map_of_merge_at
      split: option.splits)

lemma service_node_other_fields [simp]:
  "service_node (d\<lparr> invoices := invs \<rparr>) uid sid = service_node d uid sid"
  "service_node (d\<lparr> subdomains := subs \<rparr>) uid sid = service_node d uid sid"
  "service_node (d\<lparr> pannelneed := pn \<rparr>) uid sid = service_node d uid sid"
  by (simp_all add: service_node_def user_services_def)

lemma invoices_update_service [simp]:
  "invoices (update_service uid sid f d) = invoices d"
  by (simp add: update_service_def)

lemma subdomains_update_service [simp]:
  "subdomains (update_service uid sid f d) = subdomains d"
  by (simp add: update_service_def)

lemma settings_update_service [simp]:
  "settings_invoice (update_service uid sid f d) = settings_invoice d"
  "settings_stripe (update_service uid sid f d) = settings_stripe d"
  "settings_domain (update_service uid sid f d) = settings_domain d"
  "settings_restrictions (update_service uid sid f d) = settings_restrictions d"
  by (simp_all add: update_service_def)

lemma hasExistingFreeService_iff:
  "hasExistingFreeService d uid \<longleftrightarrow> (\<exists>(k, s) \<in> set (user_services d uid). s_price s = Some 0)"
  by (cases "user_services d uid") (auto simp: hasExistingFreeService_def list_ex_iff)




lemma first_invoice_key_mark_paid [simp]:
  "first_invoice_key sid (mark_paid k invs) = first_invoice_key sid invs"
proof -
  have "map fst (filter (\<lambda>(k, i). i_serviceId i = sid) (mark_paid k invs))
      = map fst (filter (\<lambda>(k, i). i_serviceId i = sid) invs)"
    by (induction invs) (auto simp: mark_paid_def split: if_splits)
  then show ?thesis
    by (auto simp: first_invoice_key_def split: list.splits)
qed

lemma mark_paid_idem [simp]: "mark_paid k (mark_paid k invs) = mark_paid k invs"
  by (induction invs) (auto simp: mark_paid_def)

lemma map_of_mark_paid:
  "map_of (mark_paid k invs) k' =
     (if k' = k then map_option (\<lambda>i. i\<lparr> i_status := Paid \<rparr>) (map_of invs k)
      else map_of invs k')"
  by (induction invs) (auto simp: mark_paid_def)



lemma first_invoice_key_in:
  "first_invoice_key sid invs = Some k \<Longrightarrow> \<exists>i. map_of invs k = Some i"
  by (induction invs) (auto simp: first_invoice_key_def split: if_splits list.splits)

lemma POST_settings_stripe [simp]:
  "settings_stripe (snd (POST constructEvent req d)) = settings_stripe d"
  by (auto simp: POST_def Let_def getStripeSecrets_def split: option.splits sum.splits prod.splits)

section \<open>Facts about the label pattern\<close>

lemma nullable_lang: "nullable r \<longleftrightarrow> [] \<in> lang r"
  by (induction r) (auto simp: conc_def intro: star_empty)

lemma cons_in_conc:
  "c # w \<in> conc A B \<longleftrightarrow>
     ([] \<in> A \<and> c # w \<in> B) \<or> (\<exists>u v. w = u @ v \<and> c # u \<in> A \<and> v \<in> B)"
  by (auto simp: conc_def Cons_eq_append_conv)

lemma star_cons_split:
  assumes "x \<in> star A" and "x = c # w"
  shows "\<exists>u v. w = u @ v \<and> c # u \<in> A \<and> v \<in> star A"
  using assms
proof (induction arbitrary: w rule: star.induct)
  case star_empty
  then show ?case by simp
next
  case (star_more u v)
  show ?case
  proof (cases u)
    case Nil
    with star_more show ?thesis by simp
  next
    case (Cons a u')
    with star_more.prems have "a = c" and "w = u' @ v" by simp_all
    with Cons star_more.hyps show ?thesis by blast
  qed
qed

lemma cons_in_star:
  "c # w \<in> star A \<longleftrightarrow> (\<exists>u v. w = u @ v \<and> c # u \<in> A \<and> v \<in> star A)"
proof
  assume "c # w \<in> star A"
  then show "\<exists>u v. w = u @ v \<and> c # u \<in> A \<and> v \<in> star A"
    by (rule star_cons_split) simp
next
  assume "\<exists>u v. w = u @ v \<and> c # u \<in> A \<and> v \<in> star A"
  then obtain u v where "w = u @ v" "c # u \<in> A" "v \<in> star A" by blast
  then show "c # w \<in> star A"
    using star_more [of "c # u" A v] by simp
qed

lemma deriv_lang: "w \<in> lang (deriv c r) \<longleftrightarrow> c # w \<in> lang r"
proof (induction r arbitrary: w)
  case (Seq r s)
  then show ?case
    by (auto simp: cons_in_conc nullable_lang) (auto simp: conc_def)
next
  case (Star r)
  then show ?case
    by (auto simp: cons_in_star) (auto simp: conc_def)
qed auto

lemma rx_test_lang: "rx_test r w \<longleftrightarrow> w \<in> lang r"
  by (induction w arbitrary: r) (simp_all add: nullable_lang deriv_lang)

lemma hyphen_not_alnum: "\<not> lower_alnum (CHR ''-'')"
  by (simp add: lower_alnum_def char_between_def)

lemma lang_class: "w \<in> lang lower_alnum_class \<longleftrightarrow> (\<exists>c. w = [c] \<and> lower_alnum c)"
  by (auto simp: lower_alnum_class_def lower_alnum_def)

lemma star_class_chars:
  "w \<in> star (lang lower_alnum_class) \<Longrightarrow> \<forall>c \<in> set w. lower_alnum c"
  by (induction rule: star.induct) (auto simp: lang_class)

lemma plus_class:
  assumes "w \<in> lang (Plus lower_alnum_class)"
  shows "w \<noteq> [] \<and> (\<forall>c \<in> set w. lower_alnum c)"
proof -
  from assms obtain u v where "w = u @ v" "u \<in> lang lower_alnum_class"
    "v \<in> star (lang lower_alnum_class)"
    by (auto simp: Plus_def conc_def)
  then show ?thesis
    using star_class_chars by (auto simp: lang_class)
qed

lemma hyphen_group:
  assumes "w \<in> lang (Seq (Chr (CHR ''-'')) (Plus lower_alnum_class))"
  shows "w \<noteq> [] \<and> (\<forall>c \<in> set w. lower_alnum c \<or> c = CHR ''-'') \<and> lower_alnum (last w)"
proof -
  from assms obtain v where w: "w = CHR ''-'' # v" and "v \<in> lang (Plus lower_alnum_class)"
    by (auto simp: conc_def)
  then have "v \<noteq> []" and "\<forall>c \<in> set v. lower_alnum c"
    using plus_class by blast+
  with w show ?thesis by auto
qed

lemma star_hyphen_groups:
  "w \<in> star (lang (Seq (Chr (CHR ''-'')) (Plus lower_alnum_class))) \<Longrightarrow> label_tail w"
proof (induction rule: star.induct)
  case star_empty
  show ?case by (simp add: label_tail_def)
next
  case (star_more u v)
  from hyphen_group [OF star_more.hyps(1)] star_more.IH show ?case
    by (auto simp: label_tail_def last_append)
qed

lemma subdomain_pattern_accepts:
  assumes "rx_test subdomain_pattern w"
  shows "w \<noteq> [] \<and> (\<forall>c \<in> set w. lower_alnum c \<or> c = CHR ''-'') \<and>
         lower_alnum (hd w) \<and> lower_alnum (last w)"
proof -
  from assms obtain u v where w: "w = u @ v" and u: "u \<in> lang (Plus lower_alnum_class)"
    and v: "v \<in> star (lang (Seq (Chr (CHR ''-'')) (Plus lower_alnum_class)))"
    by (auto simp: rx_test_lang subdomain_pattern_def conc_def)
  from plus_class [OF u] have u1: "u \<noteq> []" and u2: "\<forall>c \<in> set u. lower_alnum c"
    by blast+
  from star_hyphen_groups [OF v] have v1: "label_tail v" .
  from u1 u2 have "lower_alnum (hd u)" and "lower_alnum (last u)"
    by simp_all
  with w u1 u2 v1 show ?thesis
    by (auto simp: label_tail_def last_append)
qed

section \<open>Facts about the example data\<close>

lemma ordered_db_stripe:
  "settings_stripe ordered_db
     = Some \<lparr> secretKey = Some ''sk_test'', webhookSecret = Some ''whsec_test'' \<rparr>"
  by (simp add: ordered_db_def orderService_def Let_def order_env1_def paid_plan_def
      customer_db_def empty_db_def set_service_def update_service_def merge_at_def
      invoice_user_details_def legal_path_def legal_char_def)

lemma ordered_db_invoices: "invoices ordered_db = [(''i1'', ordered_invoice)]"
  by (simp add: ordered_db_def orderService_def Let_def order_env1_def paid_plan_def
      customer_db_def empty_db_def set_service_def update_service_def merge_at_def
      invoice_user_details_def ordered_invoice_def legal_path_def legal_char_def)


lemma shop_db_subdomains:
  "subdomains shop_db = [(''k1'', \<lparr> sd_userId = ''u1'', sd_subdomain = ''shop.example.com'',
     sd_createdAt = ''2024-01-03'', sd_status = Active, sd_serviceId = Some ''s1'' \<rparr>)]"
  by (simp add: shop_db_def createSubdomainFlow_def createSubdomainOnServer_def falsy_def
      Let_def domain_db_def empty_db_def shop_input_def sub_env1_def api_ok_def)

lemma shop_db_domain: "settings_domain shop_db = Some ''example.com''"
  by (simp add: shop_db_def createSubdomainFlow_def createSubdomainOnServer_def falsy_def
      Let_def domain_db_def empty_db_def shop_input_def sub_env1_def api_ok_def)

section \<open>Orders\<close>

text \<open>
  C1: for every call to \<open>orderService\<close> that passes the validation of the request (the
  user id and the plan id are present) with a plan of price 0, when \<open>freeUserLimitEnabled\<close>
  is set and the user already owns a service of price 0, whatever the status of that
  service, the call fails with \<open>LimitExceeded\<close> and the store is left as it was: no
  service and no invoice is written. The id of a user who owns a service is a key of the
  store, so the path of that user's services is legal.
\<close>

theorem orderService_free_limit:
  assumes "userId \<noteq> []" and "plan_id p \<noteq> []"
    and "legal_path userId"
    and "plan_price p = 0"
    and "settings_restrictions d = Some True"
    and "(k, s) \<in> set (user_services d userId)"
    and "s_price s = Some 0"
  shows "orderService env p userId d = (Inl LimitExceeded, d)"
proof -
  from assms(6,7) have "hasExistingFreeService d userId"
    unfolding hasExistingFreeService_iff by blast
  with assms(3,5) have "free_user_restriction d userId = Some LimitExceeded"
    by (simp add: free_user_restriction_def legal_path_def legal_char_def)
  with assms(1,2,4) show ?thesis
    by (simp add: orderService_def)
qed

theorem orderService_free_limit_witness:
  "orderService order_env2 free_plan ''u1'' limited_db = (Inl LimitExceeded, limited_db)"
proof -
  have "(''s1'', service_of_plan free_plan ''s1'' ''2024-01-01'' Suspended)
      \<in> set (user_services limited_db ''u1'')"
    by (simp add: user_services_def limited_db_def empty_db_def)
  moreover have "s_price (service_of_plan free_plan ''s1'' ''2024-01-01'' Suspended) = Some 0"
    by (simp add: service_of_plan_def free_plan_def)
  moreover have "settings_restrictions limited_db = Some True"
    by (simp add: limited_db_def empty_db_def)
  moreover have "legal_path ''u1''"
    by (simp add: legal_path_def legal_char_def)
  ultimately show ?thesis
    by (intro orderService_free_limit [where k = "''s1''"
          and s = "service_of_plan free_plan ''s1'' ''2024-01-01'' Suspended"])
       (simp_all add: free_plan_def)
qed

text \<open>
  C2: every successful call to \<open>orderService\<close> stores the service under the user with status
  \<open>Active\<close> and its invoice with status \<open>Paid\<close> when the plan price is 0, and with status
  \<open>Pending\<close> and \<open>Unpaid\<close> otherwise; the invoice refers to the new service and its amount
  is the price of the plan handed to the call.
\<close>

theorem orderService_creates:
  assumes "orderService env p userId d = (Inr (sid, sv), d')"
  shows "get_service d' userId sid = Some sv \<and>
         s_status sv = Some (if plan_price p = 0 then Active else Pending) \<and>
         s_price sv = Some (plan_price p) \<and>
         (\<exists>inv. map_of (invoices d') (oe_invoiceKey env) = Some inv \<and>
            i_serviceId inv = sid \<and> i_userId inv = userId \<and>
            i_status inv = (if plan_price p = 0 then Paid else Unpaid) \<and>
            i_amount inv = plan_price p)"
  using assms
  by (auto simp: orderService_def Let_def get_service_def set_service_def
      service_node_update_service service_of_plan_def empty_service_def update_conv'
      split: if_splits option.splits)

text \<open>The registered user \<open>u1\<close> orders the plan \<open>p1\<close> at price 499, and orders the free
  plan \<open>p0\<close>.\<close>

theorem orderService_creates_witness:
  "get_service (snd (orderService order_env1 paid_plan ''u1'' customer_db)) ''u1'' ''s1''
     = Some (service_of_plan paid_plan ''s1'' ''2024-01-01'' Pending) \<and>
   (\<exists>inv. map_of (invoices (snd (orderService order_env1 paid_plan ''u1'' customer_db))) ''i1''
        = Some inv \<and> i_status inv = Unpaid \<and> i_amount inv = 499) \<and>
   get_service (snd (orderService order_env2 free_plan ''u1'' customer_db)) ''u1'' ''s2''
     = Some (service_of_plan free_plan ''s2'' ''2024-01-02'' Active) \<and>
   (\<exists>inv. map_of (invoices (snd (orderService order_env2 free_plan ''u1'' customer_db))) ''i2''
        = Some inv \<and> i_status inv = Paid \<and> i_amount inv = 0)"
proof -
  have paid: "orderService order_env1 paid_plan ''u1'' customer_db =
      (Inr (''s1'', service_of_plan paid_plan ''s1'' ''2024-01-01'' Pending),
       snd (orderService order_env1 paid_plan ''u1'' customer_db))"
    by (simp add: orderService_def Let_def order_env1_def paid_plan_def customer_db_def
        empty_db_def set_service_def update_service_def merge_at_def
        invoice_user_details_def legal_path_def legal_char_def)
  have free: "orderService order_env2 free_plan ''u1'' customer_db =
      (Inr (''s2'', service_of_plan free_plan ''s2'' ''2024-01-02'' Active),
       snd (orderService order_env2 free_plan ''u1'' customer_db))"
    by (simp add: orderService_def Let_def order_env2_def free_plan_def customer_db_def
        empty_db_def set_service_def update_service_def merge_at_def
        invoice_user_details_def free_user_restriction_def legal_path_def legal_char_def)
  have keys: "oe_invoiceKey order_env1 = ''i1''" "oe_invoiceKey order_env2 = ''i2''"
    by (simp_all add: order_env1_def order_env2_def)
  have prices: "plan_price paid_plan = 499" "plan_price free_plan = 0"
    by (simp_all add: paid_plan_def free_plan_def)
  from orderService_creates [OF paid] orderService_creates [OF free] show ?thesis
    unfolding keys prices by auto
qed

section \<open>The payment webhook\<close>




text \<open>
  C4: a request without a signature header, or whose signature the gateway library refuses
  for the configured signing secret, is answered with an error status (400, or 500 when
  the gateway is not configured at all) and an error body, and the store is left as it
  was.
\<close>

theorem POST_rejects_bad_signature:
  assumes "falsy (rq_signature req) \<or>
           (\<exists>whsec msg. snd (getStripeSecrets d) = Some whsec \<and>
              constructEvent (rq_body req) (the (rq_signature req)) whsec = Inl msg)"
  shows "snd (POST constructEvent req d) = d \<and>
         r_status (fst (POST constructEvent req d))
           = (if falsy (fst (getStripeSecrets d)) \<or> falsy (snd (getStripeSecrets d))
              then 500 else 400) \<and>
         (\<exists>msg. r_body (fst (POST constructEvent req d)) = ErrorBody msg)"
  using assms
  by (cases "getStripeSecrets d")
     (auto simp: POST_def falsy_def split: option.splits sum.splits)

theorem POST_rejects_bad_signature_witness:
  "snd (POST demo_constructEvent forged_request ordered_db) = ordered_db \<and>
   r_status (fst (POST demo_constructEvent forged_request ordered_db)) = 400"
proof -
  have "falsy (rq_signature forged_request) \<or>
      (\<exists>whsec msg. snd (getStripeSecrets ordered_db) = Some whsec \<and>
         demo_constructEvent (rq_body forged_request) (the (rq_signature forged_request)) whsec
           = Inl msg)"
    by (simp add: getStripeSecrets_def ordered_db_stripe forged_request_def
        demo_constructEvent_def)
  from POST_rejects_bad_signature
    [where constructEvent = demo_constructEvent and req = forged_request and d = ordered_db, OF this]
  show ?thesis
    by (simp add: getStripeSecrets_def ordered_db_stripe falsy_def)
qed

text \<open>
  C5: an authenticated event of any type other than \<open>checkout.session.completed\<close> is
  answered 200 with \<open>received\<close> and the store is left as it was; an authenticated event
  that changes the store is of type \<open>checkout.session.completed\<close>.
\<close>

theorem POST_other_event_ignored:
  assumes "settings_stripe d = Some st"
    and "secretKey st = Some sk" and "sk \<noteq> []"
    and "webhookSecret st = Some whsec" and "whsec \<noteq> []"
    and "rq_signature req = Some sg" and "sg \<noteq> []"
    and "constructEvent (rq_body req) sg whsec = Inr event"
  shows "(ev_type event \<noteq> checkout_completed \<longrightarrow>
            POST constructEvent req d = (\<lparr> r_status = 200, r_body = Received \<rparr>, d)) \<and>
         (snd (POST constructEvent req d) \<noteq> d \<longrightarrow> ev_type event = checkout_completed)"
  using assms
  by (auto simp: POST_def getStripeSecrets_def falsy_def Let_def)

theorem POST_other_event_ignored_witness:
  "POST demo_constructEvent other_request ordered_db
     = (\<lparr> r_status = 200, r_body = Received \<rparr>, ordered_db)"
proof -
  have "(ev_type \<lparr> ev_type = ''invoice.created'', ev_metadata = None \<rparr> \<noteq> checkout_completed \<longrightarrow>
          POST demo_constructEvent other_request ordered_db
            = (\<lparr> r_status = 200, r_body = Received \<rparr>, ordered_db)) \<and>
        (snd (POST demo_constructEvent other_request ordered_db) \<noteq> ordered_db \<longrightarrow>
          ev_type \<lparr> ev_type = ''invoice.created'', ev_metadata = None \<rparr> = checkout_completed)"
    by (rule POST_other_event_ignored [where st = "\<lparr> secretKey = Some ''sk_test'',
          webhookSecret = Some ''whsec_test'' \<rparr>" and sk = "''sk_test''"
          and whsec = "''whsec_test''" and sg = "''good''"])
       (simp_all add: ordered_db_stripe demo_constructEvent_def other_request_def)
  then show ?thesis
    by (simp add: checkout_completed_def)
qed

section \<open>Subdomain provisioning\<close>

text \<open>
  C6: a label with fewer than 3 or more than 30 characters, with a character that is
  neither a lowercase letter, a digit nor a hyphen, or with a hyphen in first or last place
  makes \<open>createSubdomain\<close> fail with the validation error; the store is unchanged and no
  request was sent to the provisioning API.
\<close>

theorem createSubdomain_rejects_label:
  assumes "length (in_subdomain input) < 3 \<or> 30 < length (in_subdomain input) \<or>
           (\<exists>c \<in> set (in_subdomain input). \<not> (lower_alnum c \<or> c = CHR ''-'')) \<or>
           hd (in_subdomain input) = CHR ''-'' \<or> last (in_subdomain input) = CHR ''-''"
  shows "createSubdomain env input d = (Inl InvalidInput, d, [])"
proof -
  have "\<not> CreateSubdomainInputSchema input"
  proof
    assume ok: "CreateSubdomainInputSchema input"
    then have "rx_test subdomain_pattern (in_subdomain input)"
      by (simp add: CreateSubdomainInputSchema_def)
    from subdomain_pattern_accepts [OF this] ok assms show False
      using hyphen_not_alnum by (auto simp: CreateSubdomainInputSchema_def)
  qed
  then show ?thesis
    by (simp add: createSubdomain_def)
qed

text \<open>
  The label \<open>My Site\<close>.
\<close>

theorem createSubdomain_rejects_label_witness:
  "createSubdomain sub_env1 \<lparr> in_subdomain = ''My Site'', in_userId = ''u1'',
      in_serviceId = None \<rparr> domain_db = (Inl InvalidInput, domain_db, [])"
proof -
  have "\<exists>c \<in> set ''My Site''. \<not> (lower_alnum c \<or> c = CHR ''-'')"
    by (simp add: lower_alnum_def char_between_def)
  then show ?thesis
    using createSubdomain_rejects_label [of "\<lparr> in_subdomain = ''My Site'', in_userId = ''u1'',
      in_serviceId = None \<rparr>" sub_env1 domain_db]
    by simp
qed

text \<open>
  C7: when the root domain is configured and a subdomain record already carries the name
  \<open>label.rootDomain\<close>, \<open>createSubdomainFlow\<close> fails with \<open>AlreadyTaken\<close>, sends no request
  to the provisioning API and leaves the store, subdomain records and services alike,
  unchanged.
\<close>

theorem createSubdomainFlow_already_taken:
  assumes "settings_domain d = Some rootDomain" and "rootDomain \<noteq> []"
    and "(k, r) \<in> set (subdomains d)"
    and "sd_subdomain r = in_subdomain input @ ''.'' @ rootDomain"
  shows "createSubdomainFlow env input d
           = (Failed (AlreadyTaken (in_subdomain input @ ''.'' @ rootDomain)), d, [])"
proof -
  from assms(3,4) have "list_ex (\<lambda>(k, r). sd_subdomain r = in_subdomain input @ ''.'' @ rootDomain)
      (subdomains d)"
    by (auto simp: list_ex_iff)
  with assms(1,2) show ?thesis
    by (simp add: createSubdomainFlow_def falsy_def Let_def)
qed

theorem createSubdomainFlow_already_taken_witness:
  "createSubdomainFlow sub_env2 shop_input shop_db
     = (Failed (AlreadyTaken ''shop.example.com''), shop_db, [])"
proof -
  have "createSubdomainFlow sub_env2 shop_input shop_db
      = (Failed (AlreadyTaken (in_subdomain shop_input @ ''.'' @ ''example.com'')), shop_db, [])"
    by (rule createSubdomainFlow_already_taken [where k = "''k1''" and r = "\<lparr> sd_userId = ''u1'',
        sd_subdomain = ''shop.example.com'', sd_createdAt = ''2024-01-03'', sd_status = Active,
        sd_serviceId = Some ''s1'' \<rparr>"])
       (simp_all add: shop_db_domain shop_db_subdomains shop_input_def)
  then show ?thesis
    by (simp add: shop_input_def)
qed

section \<open>Panel login\<close>

text \<open>
  C8: \<open>handleAquaPanelLogin\<close> checks that the service exists under the user and that it has
  a subdomain, but never reads its status. For the suspended service \<open>s1\<close> of user \<open>u1\<close>
  with subdomain \<open>shop.example.com\<close> it returns credentials and stores the session.
\<close>

theorem handleAquaPanelLogin_suspended:
  "s_status (service_node suspended_db ''u1'' ''s1'') = Some Suspended \<and>
   s_subdomain (service_node suspended_db ''u1'' ''s1'') = Some ''shop.example.com'' \<and>
   fst (handleAquaPanelLogin login_env1 ''u1'' ''s1'' suspended_db)
     = Inr \<lparr> pl_username = ''shop'', pl_password = ''0a1b2c3d4e5f0a1b2c3d4e5f'',
             pl_token = ''77aa'' \<rparr> \<and>
   pannelneed (snd (handleAquaPanelLogin login_env1 ''u1'' ''s1'' suspended_db))
     = [(''shop'', \<lparr> ps_password = ''0a1b2c3d4e5f0a1b2c3d4e5f'', ps_access_token = ''77aa'',
          ps_expires_at = 1700003600, ps_userId = ''u1'', ps_serviceId = ''s1'' \<rparr>)]"
  by (simp add: handleAquaPanelLogin_def get_service_def service_node_def user_services_def
      suspended_db_def updateServiceStatus_def update_service_def merge_at_def
      shop_db_def createSubdomainFlow_def createSubdomainOnServer_def api_ok_def
      sub_env1_def shop_input_def domain_db_def empty_db_def service_of_plan_def
      free_plan_def empty_service_def empty_user_def falsy_def login_env1_def Let_def)

section \<open>Subdomain records of one service\<close>

text \<open>
  C9: \<open>createSubdomainFlow\<close> checks that the name is free, but not whether the service
  already has a subdomain. From a store without subdomain records, the requests for the
  labels \<open>shop\<close> and \<open>blog\<close>, both for the service \<open>s1\<close> of user \<open>u1\<close>, both succeed, and the
  state reached holds two subdomain records that reference \<open>s1\<close>.
\<close>

theorem createSubdomainFlow_second_subdomain:
  "service_ids_unique domain_db \<and> reachable domain_db shop_blog_db \<and>
   fst (createSubdomainFlow sub_env1 shop_input domain_db) = Created ''shop.example.com'' \<and>
   fst (createSubdomainFlow sub_env2 blog_input shop_db) = Created ''blog.example.com'' \<and>
   map (\<lambda>(k, r). (k, sd_subdomain r, sd_serviceId r)) (subdomains shop_blog_db)
     = [(''k1'', ''shop.example.com'', Some ''s1''), (''k2'', ''blog.example.com'', Some ''s1'')] \<and>
   \<not> service_ids_unique shop_blog_db"
proof -
  have first: "fst (createSubdomainFlow sub_env1 shop_input domain_db) = Created ''shop.example.com''"
    by (simp add: createSubdomainFlow_def createSubdomainOnServer_def falsy_def Let_def
        domain_db_def empty_db_def shop_input_def sub_env1_def api_ok_def)
  have second: "fst (createSubdomainFlow sub_env2 blog_input shop_db) = Created ''blog.example.com''"
    by (simp add: createSubdomainFlow_def createSubdomainOnServer_def falsy_def Let_def
        shop_db_domain shop_db_subdomains blog_input_def sub_env2_def api_ok_def)
  have records: "map (\<lambda>(k, r). (k, sd_subdomain r, sd_serviceId r)) (subdomains shop_blog_db)
      = [(''k1'', ''shop.example.com'', Some ''s1''), (''k2'', ''blog.example.com'', Some ''s1'')]"
    by (simp add: shop_blog_db_def createSubdomainFlow_def createSubdomainOnServer_def
        falsy_def Let_def shop_db_domain shop_db_subdomains blog_input_def sub_env2_def
        api_ok_def)
  have "reachable domain_db shop_db"
    unfolding shop_db_def
    by (rule reachable_step [OF reachable_start, where env = sub_env1 and input = shop_input
          and out = "fst (createSubdomainFlow sub_env1 shop_input domain_db)"
          and calls = "snd (snd (createSubdomainFlow sub_env1 shop_input domain_db))"]) simp
  then have reached: "reachable domain_db shop_blog_db"
    unfolding shop_blog_db_def
    by (rule reachable_step [where env = sub_env2 and input = blog_input
          and out = "fst (createSubdomainFlow sub_env2 blog_input shop_db)"
          and calls = "snd (snd (createSubdomainFlow sub_env2 blog_input shop_db))"]) simp
  have before: "service_ids_unique domain_db"
    by (simp add: service_ids_unique_def domain_db_def empty_db_def)
  have "map (\<lambda>(k, r). sd_serviceId r) (subdomains shop_blog_db)
      = map (\<lambda>(k, n, sid). sid)
          (map (\<lambda>(k, r). (k, sd_subdomain r, sd_serviceId r)) (subdomains shop_blog_db))"
    by (simp add: case_prod_beta comp_def)
  then have "map (\<lambda>(k, r). sd_serviceId r) (subdomains shop_blog_db) = [Some ''s1'', Some ''s1'']"
    unfolding records by simp
  then have after: "\<not> service_ids_unique shop_blog_db"
    by (simp add: service_ids_unique_def falsy_def)
  from first second records reached before after show ?thesis
    by blast
qed

section \<open>Administrative status update\<close>

text \<open>
  C10: a successful \<open>updateServiceStatus\<close> sets the status of the service; when the new
  status is \<open>Active\<close> it also sets the first invoice found for the service id to \<open>Paid\<close>
  and changes no other invoice, and for every other status the invoices are left as they
  were.
\<close>

theorem updateServiceStatus_invoice:
  assumes "updateServiceStatus userId serviceId status d = (Inr (), d')"
  shows "s_status (service_node d' userId serviceId) = Some status \<and>
         (status = Active \<longrightarrow>
            (case first_invoice_key serviceId (invoices d) of
               None \<Rightarrow> invoices d' = invoices d
             | Some k \<Rightarrow>
                 (\<exists>i. map_of (invoices d) k = Some i \<and>
                      map_of (invoices d') k = Some (i\<lparr> i_status := Paid \<rparr>)) \<and>
                 (\<forall>k'. k' \<noteq> k \<longrightarrow> map_of (invoices d') k' = map_of (invoices d) k'))) \<and>
         (status \<noteq> Active \<longrightarrow> invoices d' = invoices d)"
proof (cases "first_invoice_key serviceId (invoices d)")
  case None
  with assms show ?thesis
    by (auto simp: updateServiceStatus_def Let_def service_node_update_service split: if_splits)
next
  case (Some k)
  then obtain i where "map_of (invoices d) k = Some i"
    using first_invoice_key_in by blast
  with assms Some show ?thesis
    by (auto simp: updateServiceStatus_def Let_def service_node_update_service map_of_mark_paid
        split: if_splits)
qed

text \<open>
  Activating and suspending the service of the order of plan \<open>p1\<close>.
\<close>

theorem updateServiceStatus_invoice_witness:
  "s_status (service_node (snd (updateServiceStatus ''u1'' ''s1'' Active ordered_db)) ''u1'' ''s1'')
     = Some Active \<and>
   map (\<lambda>(k, i). (k, i_status i)) (invoices (snd (updateServiceStatus ''u1'' ''s1'' Active ordered_db)))
     = [(''i1'', Paid)] \<and>
   invoices (snd (updateServiceStatus ''u1'' ''s1'' Suspended ordered_db)) = invoices ordered_db"
proof -
  have a: "updateServiceStatus ''u1'' ''s1'' Active ordered_db
      = (Inr (), snd (updateServiceStatus ''u1'' ''s1'' Active ordered_db))"
    by (simp add: updateServiceStatus_def Let_def)
  have b: "updateServiceStatus ''u1'' ''s1'' Suspended ordered_db
      = (Inr (), snd (updateServiceStatus ''u1'' ''s1'' Suspended ordered_db))"
    by (simp add: updateServiceStatus_def Let_def)
  have paid: "map (\<lambda>(k, i). (k, i_status i))
      (invoices (snd (updateServiceStatus ''u1'' ''s1'' Active ordered_db))) = [(''i1'', Paid)]"
    by (simp add: updateServiceStatus_def Let_def ordered_db_invoices ordered_invoice_def
        first_invoice_key_def mark_paid_def)
  from updateServiceStatus_invoice [OF a] updateServiceStatus_invoice [OF b] paid
  show ?thesis by simp
qed

end
